theory Spec2Isabelle
  imports Main "HOL-Library.AList" "HOL-Library.Log_Nat"
begin

section \<open>The Python runtime, as far as \<open>sumread.py\<close> uses it\<close>

text \<open>
  Exceptions are values. \<open>InvalidSumError\<close> is the class of the module; the others
  are the built-in exceptions that the code raises or lets escape.
\<close>

datatype py_error =
  InvalidSumError | UnboundLocalError | IndexError | KeyError | ValueError | TypeError

subsection \<open>Strings\<close>

text \<open>
  The input is a \<open>bytes\<close> object: a list of 8-bit characters. \<open>decode("ascii")\<close>
  raises \<open>UnicodeDecodeError\<close> on a byte above 127 and changes nothing otherwise.
\<close>

definition is_ascii :: "char \<Rightarrow> bool" where
  "is_ascii c = (\<not> digit7 c)"

definition decode_ascii :: "string \<Rightarrow> string option" where
  "decode_ascii data = (if list_all is_ascii data then Some data else None)"

text \<open>
  \<open>str.isspace\<close> on the ASCII range: tab, the line breaks, the four separators
  \<open>0x1c .. 0x1f\<close> and the space.
\<close>

definition is_space :: "char \<Rightarrow> bool" where
  "is_space c = (c \<in> set [CHR 0x09, CHR 0x0A, CHR 0x0B, CHR 0x0C, CHR 0x0D,
                            CHR 0x1C, CHR 0x1D, CHR 0x1E, CHR 0x1F, CHR '' ''])"

definition strip :: "string \<Rightarrow> string" where
  "strip s = rev (dropWhile is_space (rev (dropWhile is_space s)))"

definition to_upper :: "char \<Rightarrow> char" where
  "to_upper c = (case map_of (zip ''abcdefghijklmnopqrstuvwxyz'' ''ABCDEFGHIJKLMNOPQRSTUVWXYZ'') c of
                   Some u \<Rightarrow> u | None \<Rightarrow> c)"

definition to_lower :: "char \<Rightarrow> char" where
  "to_lower c = (case map_of (zip ''ABCDEFGHIJKLMNOPQRSTUVWXYZ'' ''abcdefghijklmnopqrstuvwxyz'') c of
                   Some u \<Rightarrow> u | None \<Rightarrow> c)"

definition upper :: "string \<Rightarrow> string" where
  "upper s = map to_upper s"

definition startswith :: "string \<Rightarrow> string \<Rightarrow> bool" where
  "startswith s p = (take (length p) s = p)"

text \<open>
  \<open>str.splitlines()\<close>: a line ends at \<open>\n\<close>, \<open>\r\<close>, \<open>\r\n\<close>, \<open>\v\<close>, \<open>\f\<close>
  or one of \<open>0x1c\<close>, \<open>0x1d\<close>, \<open>0x1e\<close>; the breaks are dropped, and text after the
  last break is a line only when it is not empty.
\<close>

definition is_linebreak :: "char \<Rightarrow> bool" where
  "is_linebreak c = (c \<in> set [CHR 0x0A, CHR 0x0B, CHR 0x0C, CHR 0x0D, CHR 0x1C, CHR 0x1D, CHR 0x1E])"

fun splitlines_from :: "string \<Rightarrow> string \<Rightarrow> string list" where
  "splitlines_from cur [] = (if cur = [] then [] else [cur])"
| "splitlines_from cur (c # cs) =
     (if c = CHR 0x0D \<and> cs \<noteq> [] \<and> hd cs = CHR 0x0A then cur # splitlines_from [] (tl cs)
      else if is_linebreak c then cur # splitlines_from [] cs
      else splitlines_from (cur @ [c]) cs)"

definition splitlines :: "string \<Rightarrow> string list" where
  "splitlines s = splitlines_from [] s"

text \<open>\<open>s.index(sub)\<close>: the least offset at which \<open>sub\<close> occurs, \<open>None\<close> for ValueError.\<close>

fun str_index :: "string \<Rightarrow> string \<Rightarrow> nat option" where
  "str_index [] sub = (if sub = [] then Some 0 else None)"
| "str_index (c # cs) sub =
     (if startswith (c # cs) sub then Some 0 else map_option Suc (str_index cs sub))"

text \<open>\<open>" ".join(d)\<close>.\<close>

fun join_space :: "string list \<Rightarrow> string" where
  "join_space [] = []"
| "join_space [t] = t"
| "join_space (t # ts) = t @ '' '' @ join_space ts"

text \<open>A slice \<open>s[a:b]\<close> with \<open>0 \<le> a \<le> b\<close>: what is out of range is left out.\<close>

definition slice :: "nat \<times> nat \<Rightarrow> 'a list \<Rightarrow> 'a list" where
  "slice ab s = take (snd ab - fst ab) (drop (fst ab) s)"

text \<open>
  \<open>xs[i]\<close> for an integer \<open>i\<close>: an index from \<open>0\<close> counts from the front, one
  from \<open>-1\<close> down to \<open>-len(xs)\<close> counts from the back, any other raises IndexError.
\<close>

definition py_index :: "'a list \<Rightarrow> int \<Rightarrow> py_error + 'a" where
  "py_index xs i =
     (if 0 \<le> i \<and> i < int (length xs) then Inr (xs ! nat i)
      else if i < 0 \<and> - int (length xs) \<le> i then Inr (xs ! nat (int (length xs) + i))
      else Inl IndexError)"

subsection \<open>Floats\<close>

text \<open>
  A Python \<open>float\<close> is an IEEE 754 binary64 value: a finite rational with a 53-bit
  significand, an infinity or NaN. The two zeros are one value here, as they are for
  Python's \<open>==\<close>. Parsing and arithmetic round the exact result to the nearest
  binary64 value, ties to the even significand, and overflow to an infinity.
\<close>

datatype pyfloat = Finite rat | Infinite bool | NaN

definition pow2 :: "int \<Rightarrow> rat" where
  "pow2 e = (if 0 \<le> e then 2 ^ nat e else 1 / 2 ^ nat (- e))"

definition pow10 :: "int \<Rightarrow> rat" where
  "pow10 e = (if 0 \<le> e then 10 ^ nat e else 1 / 10 ^ nat (- e))"

text \<open>The exponent \<open>e\<close> with \<open>2 ^ e \<le> a < 2 ^ (e + 1)\<close>, for a positive \<open>a\<close>.\<close>

definition binary_exponent :: "rat \<Rightarrow> int" where
  "binary_exponent a =
     (if 1 \<le> a then bitlen \<lfloor>a\<rfloor> - 1 else - bitlen (\<lceil>1 / a\<rceil> - 1))"

definition round_half_even :: "rat \<Rightarrow> int" where
  "round_half_even x =
     (let f = \<lfloor>x\<rfloor>; d = x - of_int f
      in if d < 1 / 2 then f else if 1 / 2 < d then f + 1 else if even f then f else f + 1)"

definition round_double :: "rat \<Rightarrow> pyfloat" where
  "round_double x =
     (if x = 0 then Finite 0
      else let a = \<bar>x\<bar>;
               q = pow2 (max (binary_exponent a) (- 1022) - 52);
               r = of_int (round_half_even (a / q)) * q
           in if pow2 1024 \<le> r then Infinite (x < 0)
              else Finite (if x < 0 then - r else r))"

definition float_of_int :: "int \<Rightarrow> pyfloat" where
  "float_of_int n = round_double (of_int n)"

fun float_add :: "pyfloat \<Rightarrow> pyfloat \<Rightarrow> pyfloat" where
  "float_add (Finite a) (Finite b) = round_double (a + b)"
| "float_add NaN _ = NaN"
| "float_add _ NaN = NaN"
| "float_add (Infinite s) (Infinite t) = (if s = t then Infinite s else NaN)"
| "float_add (Infinite s) (Finite _) = Infinite s"
| "float_add (Finite _) (Infinite t) = Infinite t"

fun float_mul :: "pyfloat \<Rightarrow> pyfloat \<Rightarrow> pyfloat" where
  "float_mul (Finite a) (Finite b) = round_double (a * b)"
| "float_mul NaN _ = NaN"
| "float_mul _ NaN = NaN"
| "float_mul (Infinite s) (Infinite t) = Infinite (s \<noteq> t)"
| "float_mul (Infinite s) (Finite b) = (if b = 0 then NaN else Infinite (s \<noteq> (b < 0)))"
| "float_mul (Finite a) (Infinite t) = (if a = 0 then NaN else Infinite ((a < 0) \<noteq> t))"

text \<open>\<open>x / n\<close> for a float \<open>x\<close> and an integer \<open>n\<close> that is not zero.\<close>

fun float_div_int :: "pyfloat \<Rightarrow> int \<Rightarrow> pyfloat" where
  "float_div_int (Finite a) n = round_double (a / of_int n)"
| "float_div_int (Infinite s) n = Infinite (s \<noteq> (n < 0))"
| "float_div_int NaN n = NaN"

text \<open>
  \<open>float(s)\<close> for a string. Surrounding whitespace is dropped. An underscore may
  stand between two digits and nowhere else. What is left is a sign and \<open>inf\<close>,
  \<open>infinity\<close> or \<open>nan\<close> in any case, or a decimal numeral: digits with an optional
  point (at least one digit before or after it) and an optional exponent. \<open>None\<close> is
  ValueError.
\<close>

definition is_digit :: "char \<Rightarrow> bool" where
  "is_digit c = (c \<in> set ''0123456789'')"

definition digit_value :: "char \<Rightarrow> int" where
  "digit_value c = (case map_of (zip ''0123456789'' [0, 1, 2, 3, 4, 5, 6, 7, 8, 9]) c of
                      Some n \<Rightarrow> n | None \<Rightarrow> 0)"

definition digits_value :: "string \<Rightarrow> int" where
  "digits_value ds = foldl (\<lambda>n c. 10 * n + digit_value c) 0 ds"

fun underscores_ok :: "char option \<Rightarrow> string \<Rightarrow> bool" where
  "underscores_ok prev [] = (prev \<noteq> Some CHR ''_'')"
| "underscores_ok prev (c # cs) =
     ((if c = CHR ''_'' then (case prev of Some p \<Rightarrow> is_digit p | None \<Rightarrow> False)
       else prev = Some CHR ''_'' \<longrightarrow> is_digit c)
      \<and> underscores_ok (Some c) cs)"

definition split_sign :: "string \<Rightarrow> bool \<times> string" where
  "split_sign s = (case s of
       c # cs \<Rightarrow> if c = CHR ''-'' then (True, cs) else if c = CHR ''+'' then (False, cs) else (False, s)
     | [] \<Rightarrow> (False, s))"

definition parse_exponent :: "string \<Rightarrow> int option" where
  "parse_exponent s = (case s of
       [] \<Rightarrow> Some 0
     | c # cs \<Rightarrow>
         if c = CHR ''e'' \<or> c = CHR ''E'' then
           (let (neg, ds) = split_sign cs
            in if ds \<noteq> [] \<and> list_all is_digit ds
               then Some (if neg then - digits_value ds else digits_value ds)
               else None)
         else None)"

definition parse_decimal :: "string \<Rightarrow> rat option" where
  "parse_decimal s =
     (let ip = takeWhile is_digit s; r1 = dropWhile is_digit s;
          r2 = (case r1 of c # cs \<Rightarrow> if c = CHR ''.'' then cs else r1 | [] \<Rightarrow> r1);
          fp = (if r2 = r1 then [] else takeWhile is_digit r2);
          r3 = (if r2 = r1 then r1 else dropWhile is_digit r2)
      in if ip = [] \<and> fp = [] then None
         else case parse_exponent r3 of
                None \<Rightarrow> None
              | Some e \<Rightarrow> Some (of_int (digits_value (ip @ fp)) * pow10 (e - int (length fp))))"

definition py_float :: "string \<Rightarrow> pyfloat option" where
  "py_float s =
     (let t = strip s
      in if \<not> underscores_ok None t then None
         else let (neg, body) = split_sign (filter (\<lambda>c. c \<noteq> CHR ''_'') t);
                  word = map to_lower body
              in if word = ''inf'' \<or> word = ''infinity'' then Some (Infinite neg)
                 else if word = ''nan'' then Some NaN
                 else case parse_decimal body of
                        None \<Rightarrow> None
                      | Some m \<Rightarrow> Some (round_double (if neg then - m else m)))"

section \<open>The module \<open>sumread.py\<close>\<close>

subsection \<open>The alias table\<close>

definition POSSIBILITIES :: "(string \<times> string list) list" where
  "POSSIBILITIES =
     [(''expocode'', [''EXPOCODE'']),
      (''woce_sect'', [''SECT'', ''WHP-ID'', ''WOCE'']),
      (''stnnbr'', [''STNNBR'']),
      (''castno'', [''CASTNO'']),
      (''parameters'', [''PARAMETERS'', ''PARAM'', ''PARAMETER'', ''PARAMS'', ''PARAMATER'',
                        ''PARAMMETER'']),
      (''comments'', [''COM'', ''COMM'', ''COMME'', ''COMMEN'', ''COMMUNTS'', ''COMMENTS'',
                      ''COMMENT'', ''COMMMENTS'', ''MOORING'', ''C'', ''CO'',
                      ''COMMENTS'' @ [CHR 0x09]]),
      (''max_pressure'', [''PRESS'', ''PRESSURE'']),
      (''wire'', [''WIRE'', ''OUT'', ''WHEEL'']),
      (''bottles'', [''BOTTLES'', ''BOTTLE'']),
      (''height'', [''BOTTOM'', ''ALT'']),
      (''lat'', [''LATITUDE'']),
      (''lon'', [''LONGITUDE'']),
      (''type'', [''TYPE'']),
      (''date'', [''DATE'']),
      (''time'', [''TIME'']),
      (''event'', [''CODE'']),
      (''nav'', [''NAV'']),
      (''depth'', [''DEPTH'']),
      (''corrected_depth'', [''CDEPTH''])]"

text \<open>
  The loop that inverts the table: the dictionary is an association list, an assignment
  to a key replaces its value in place or appends the key.
\<close>

definition INVERTED_POSSIBILITIES :: "(string \<times> string) list" where
  "INVERTED_POSSIBILITIES =
     fold (\<lambda>(key, vals) inv. fold (\<lambda>v inv'. AList.update v key inv') vals inv) POSSIBILITIES []"

text \<open>\<open>INVERTED_POSSIBILITIES[col]\<close>, with its KeyError.\<close>

definition inverted :: "string \<Rightarrow> py_error + string" where
  "inverted col = (case map_of INVERTED_POSSIBILITIES col of
                     None \<Rightarrow> Inl KeyError | Some key \<Rightarrow> Inr key)"

subsection \<open>The field decoders\<close>

text \<open>
  A decoded value is \<open>None\<close>, a string or a float. A decoder takes the deque of the
  row's remaining tokens and returns its value with the deque it leaves, or the
  exception that escapes it.
\<close>

datatype pyval = PyNone | PyStr string | PyFloat pyfloat

type_synonym getter = "string list \<Rightarrow> py_error + (pyval \<times> string list)"

definition simple_get :: getter where
  "simple_get d = (case d of [] \<Rightarrow> Inr (PyNone, []) | t # ts \<Rightarrow> Inr (PyStr t, ts))"

definition allowed :: "char set" where
  "allowed = set ''1234567890,- ''"

definition params_get :: getter where
  "params_get d = (case d of
       [] \<Rightarrow> Inr (PyNone, [])
     | params # ts \<Rightarrow> if set params \<subseteq> allowed then Inr (PyStr params, ts) else Inr (PyNone, d))"

definition comments_get :: getter where
  "comments_get d = Inr (PyStr (join_space d), d)"

definition hem :: "string \<Rightarrow> int option" where
  "hem = map_of [(''N'', 1), (''S'', - 1), (''E'', 1), (''W'', - 1)]"

text \<open>
  The three \<open>popleft\<close> calls come first, and their IndexError is not caught: the
  handler is for ValueError, which only \<open>float\<close> raises. The lookup in \<open>hem\<close> stands
  after the handler.
\<close>

definition latlon_get :: getter where
  "latlon_get d = (case d of
       t1 # t2 # t3 # rest \<Rightarrow>
         (let degree = strip t1; minute = strip t2; hemisphere = upper (strip t3)
          in case py_float degree of
               None \<Rightarrow> Inr (PyNone, rest)
             | Some deg \<Rightarrow>
                 (case py_float minute of
                    None \<Rightarrow> Inr (PyNone, rest)
                  | Some mnt \<Rightarrow>
                      (case hem hemisphere of
                         None \<Rightarrow> Inl KeyError
                       | Some sign \<Rightarrow>
                           Inr (PyFloat (float_mul (float_add deg (float_div_int mnt 60))
                                           (float_of_int sign)), rest))))
     | _ \<Rightarrow> Inl IndexError)"

definition GETTERS :: "(string \<times> getter) list" where
  "GETTERS =
     [(''expocode'', simple_get),
      (''woce_sect'', simple_get),
      (''stnnbr'', simple_get),
      (''castno'', simple_get),
      (''type'', simple_get),
      (''date'', simple_get),
      (''time'', simple_get),
      (''event'', simple_get),
      (''lat'', latlon_get),
      (''lon'', latlon_get),
      (''nav'', simple_get),
      (''depth'', simple_get),
      (''corrected_depth'', simple_get),
      (''height'', simple_get),
      (''wire'', simple_get),
      (''bottles'', simple_get),
      (''max_pressure'', simple_get),
      (''parameters'', params_get),
      (''comments'', comments_get)]"

subsection \<open>Column slices\<close>

text \<open>\<open>itertools.groupby\<close>: the maximal runs of equal neighbours, each with its value.\<close>

function groupby :: "'a list \<Rightarrow> ('a \<times> 'a list) list" where
  "groupby [] = []"
| "groupby (x # xs) = (x, x # takeWhile (\<lambda>y. y = x) xs) # groupby (dropWhile (\<lambda>y. y = x) xs)"
  by pat_completeness auto
termination
  by (relation "measure length") (auto simp: less_Suc_eq_le length_dropWhile_le)

text \<open>A slice is its pair of bounds \<open>(start, stop)\<close>.\<close>

definition calculate_slices :: "bool list \<Rightarrow> (nat \<times> nat) list" where
  "calculate_slices space_columns =
     snd (fold (\<lambda>(val, grp) (position, column_slices).
                  (position + length grp,
                   if val = False then column_slices @ [(position, position + length grp)]
                   else column_slices))
            (groupby space_columns) (0, []))"

definition is_blank :: "char \<Rightarrow> bool" where
  "is_blank l = (l = CHR '' '')"

fun zip_longest :: "'a \<Rightarrow> 'a list \<Rightarrow> 'a list \<Rightarrow> ('a \<times> 'a) list" where
  "zip_longest fill [] ys = map (\<lambda>b. (fill, b)) ys"
| "zip_longest fill (a # xs) [] = map (\<lambda>a'. (a', fill)) (a # xs)"
| "zip_longest fill (a # xs) (b # ys) = (a, b) # zip_longest fill xs ys"

subsection \<open>Locating the header and the body\<close>

definition is_separator :: "string \<Rightarrow> bool" where
  "is_separator line = startswith (strip line) (replicate 10 CHR ''-'')"

text \<open>The \<open>for ... else\<close> over \<open>enumerate(lines)\<close>: the index of the first separator.\<close>

fun find_separator :: "nat \<Rightarrow> string list \<Rightarrow> nat option" where
  "find_separator i [] = None"
| "find_separator i (line # rest) =
     (if is_separator line then Some i else find_separator (Suc i) rest)"

text \<open>The two \<open>try\<close> blocks that look for the depth markers in the preheader.\<close>

definition uncorrected_marker :: "string \<Rightarrow> nat option" where
  "uncorrected_marker preheader = str_index preheader ''UNC''"

definition corrected_marker :: "string \<Rightarrow> nat option" where
  "corrected_marker preheader =
     (case str_index preheader ''COR'' of
        Some k \<Rightarrow> Some k
      | None \<Rightarrow> str_index preheader ''XXX'')"

definition header_labels :: "string \<Rightarrow> string list" where
  "header_labels header = map (\<lambda>sl. slice sl header) (calculate_slices (map is_blank header))"

text \<open>
  \<open>set(INVERTED_POSSIBILITIES[col] for col in empty_cols)\<close> and the list comprehension
  over the headers: the first missing key raises KeyError.
\<close>

fun inverted_all :: "string list \<Rightarrow> py_error + string list" where
  "inverted_all [] = Inr []"
| "inverted_all (col # cols) =
     (case inverted col of
        Inl e \<Rightarrow> Inl e
      | Inr key \<Rightarrow> (case inverted_all cols of Inl e \<Rightarrow> Inl e | Inr keys \<Rightarrow> Inr (key # keys)))"

subsection \<open>Duplicate headers\<close>

text \<open>\<open>Counter(headers)\<close>: the labels in the order of their first occurrence, with counts.\<close>

definition counter :: "string list \<Rightarrow> (string \<times> nat) list" where
  "counter xs =
     fold (\<lambda>x cnt. AList.update x (case map_of cnt x of None \<Rightarrow> 1 | Some n \<Rightarrow> n + 1) cnt) xs []"

fun check_counts :: "(string \<times> nat) list \<Rightarrow> py_error option" where
  "check_counts [] = None"
| "check_counts ((header, n) # rest) =
     (if header = ''DEPTH'' \<and> n \<noteq> 2 then Some ValueError
      else if header \<noteq> ''DEPTH'' \<and> n \<noteq> 1 then Some ValueError
      else check_counts rest)"

text \<open>\<open>xs.index(x)\<close>, \<open>None\<close> for ValueError.\<close>

fun list_index :: "'a list \<Rightarrow> 'a \<Rightarrow> nat option" where
  "list_index [] x = None"
| "list_index (y # ys) x = (if y = x then Some 0 else map_option Suc (list_index ys x))"

text \<open>\<open>a > b\<close> where either side may be \<open>None\<close>: Python 3 orders no \<open>None\<close>.\<close>

definition py_gt :: "nat option \<Rightarrow> nat option \<Rightarrow> py_error + bool" where
  "py_gt a b = (case a of
       None \<Rightarrow> Inl TypeError
     | Some x \<Rightarrow> (case b of None \<Rightarrow> Inl TypeError | Some y \<Rightarrow> Inr (y < x)))"

text \<open>
  Lines 256 to 274. The \<open>elif\<close> repeats the condition of the \<open>if\<close>, so its branch is
  never taken; it is kept here as the source has it.
\<close>

definition resolve_duplicates :: "nat option \<Rightarrow> nat option \<Rightarrow> string list \<Rightarrow> py_error + string list" where
  "resolve_duplicates uncorreced_depth corrected_depth headers =
     (if length headers \<noteq> length (remdups headers) then
        (case check_counts (counter headers) of
           Some e \<Rightarrow> Inl e
         | None \<Rightarrow>
             (case py_gt corrected_depth uncorreced_depth of
                Inl e \<Rightarrow> Inl e
              | Inr gt \<Rightarrow>
                  if gt then
                    (case list_index (rev headers) ''DEPTH'' of
                       None \<Rightarrow> Inl ValueError
                     | Some idx \<Rightarrow> Inr (headers[length headers - idx - 1 := ''CDEPTH'']))
                  else if gt then
                    (case list_index headers ''DEPTH'' of
                       None \<Rightarrow> Inl ValueError
                     | Some idx \<Rightarrow> Inr (headers[idx := ''CDEPTH'']))
                  else Inr headers))
      else Inr headers)"

subsection \<open>The body\<close>

text \<open>
  Lines 280 to 284: \<open>body[0]\<close> raises IndexError on an empty body; every line is then
  and-ed into the mask, a missing position counting as blank.
\<close>

definition space_columns_of :: "string list \<Rightarrow> py_error + bool list" where
  "space_columns_of body = (case body of
       [] \<Rightarrow> Inl IndexError
     | first # _ \<Rightarrow>
         Inr (fold (\<lambda>line space_columns.
                      map (\<lambda>(a, b). a \<and> b) (zip_longest True space_columns (map is_blank line)))
                body (map is_blank first)))"

definition tokenize :: "(nat \<times> nat) list \<Rightarrow> string list \<Rightarrow> string list list" where
  "tokenize column_slices body = map (\<lambda>line. map (\<lambda>sl. slice sl line) column_slices) body"

subsection \<open>Rows\<close>

text \<open>
  A row is a dictionary from canonical names to values: an association list in the
  order of insertion, an assignment to a key it holds replacing the value in place.
\<close>

type_synonym row = "(string \<times> pyval) list"

text \<open>
  The inner loop, lines 294 to 299, from the row built so far and the deque. It returns
  the row and what is left in the deque.
\<close>

fun decode_fields :: "string list \<Rightarrow> string list \<Rightarrow> row \<Rightarrow> string list \<Rightarrow> py_error + (row \<times> string list)" where
  "decode_fields normalized_empty [] row_data d = Inr (row_data, d)"
| "decode_fields normalized_empty (header # rest) row_data d =
     (if header \<in> set normalized_empty
      then decode_fields normalized_empty rest (AList.update header PyNone row_data) d
      else case map_of GETTERS header of
             None \<Rightarrow> Inl KeyError
           | Some getter \<Rightarrow>
               (case getter d of
                  Inl e \<Rightarrow> Inl e
                | Inr (v, d') \<Rightarrow>
                    decode_fields normalized_empty rest (AList.update header v row_data) d'))"

text \<open>
  The generator: the rows it yields, in order, and the exception that ends it, if one
  does. A row is yielded when all its fields are decoded.
\<close>

fun rows_loop :: "string list \<Rightarrow> string list \<Rightarrow> string list list \<Rightarrow> row list \<times> py_error option" where
  "rows_loop normalized_empty normalized_headers [] = ([], None)"
| "rows_loop normalized_empty normalized_headers (line # rest) =
     (case decode_fields normalized_empty normalized_headers [] line of
        Inl e \<Rightarrow> ([], Some e)
      | Inr (row_data, _) \<Rightarrow>
          (case rows_loop normalized_empty normalized_headers rest of
             (rows, err) \<Rightarrow> (row_data # rows, err)))"

subsection \<open>\<open>read_sum\<close>\<close>

text \<open>
  What the generator has computed when it reaches its loop (lines 207 to 290), or the
  exception raised on the way.
\<close>

record layout =
  lay_preheader :: string
  lay_header :: string
  lay_body :: "string list"
  lay_headers :: "string list"
  lay_normalized_empty :: "string list"
  lay_normalized_headers :: "string list"
  lay_column_slices :: "(nat \<times> nat) list"

text \<open>
  Line 230 is \<open>raise InvalidSumError(...) from e\<close>. The name \<open>e\<close> is local to
  \<open>read_sum\<close> (line 213 binds it) and holds no value there, since the handler of line
  213 either did not run or has raised: evaluating it raises UnboundLocalError.
\<close>

definition resolve_layout :: "string \<Rightarrow> string list \<Rightarrow> py_error + layout" where
  "resolve_layout data empty_cols =
     (case decode_ascii data of
        None \<Rightarrow> Inl InvalidSumError
      | Some text \<Rightarrow>
     let lines = splitlines text in
     case find_separator 0 lines of
        None \<Rightarrow> Inl UnboundLocalError
      | Some i \<Rightarrow>
     case py_index lines (int i - 2) of Inl e \<Rightarrow> Inl e | Inr preheader \<Rightarrow>
     case py_index lines (int i - 1) of Inl e \<Rightarrow> Inl e | Inr header \<Rightarrow>
     let body = drop (i + 1) lines;
         headers = header_labels header in
     case inverted_all empty_cols of Inl e \<Rightarrow> Inl e | Inr normalized_empty \<Rightarrow>
     case resolve_duplicates (uncorrected_marker preheader) (corrected_marker preheader) headers of
        Inl e \<Rightarrow> Inl e | Inr headers' \<Rightarrow>
     case inverted_all headers' of Inl e \<Rightarrow> Inl e | Inr normalized_headers \<Rightarrow>
     case space_columns_of body of Inl e \<Rightarrow> Inl e | Inr space_columns \<Rightarrow>
     Inr \<lparr>lay_preheader = preheader, lay_header = header, lay_body = body,
          lay_headers = headers', lay_normalized_empty = normalized_empty,
          lay_normalized_headers = normalized_headers,
          lay_column_slices = calculate_slices space_columns\<rparr>)"

definition read_sum :: "string \<Rightarrow> string list \<Rightarrow> row list \<times> py_error option" where
  "read_sum data empty_cols =
     (case resolve_layout data empty_cols of
        Inl e \<Rightarrow> ([], Some e)
      | Inr L \<Rightarrow>
          rows_loop (lay_normalized_empty L) (lay_normalized_headers L)
            (tokenize (lay_column_slices L) (lay_body L)))"

section \<open>The specification's own notions\<close>




section \<open>Evaluation on concrete inputs\<close>

lemma replicate_dashes: "replicate 10 CHR ''-'' = ''----------''"
  by (simp add: eval_nat_numeral)

lemma INVERTED_POSSIBILITIES_eq:
  "INVERTED_POSSIBILITIES =
     [(''EXPOCODE'', ''expocode''), (''SECT'', ''woce_sect''), (''WHP-ID'', ''woce_sect''),
      (''WOCE'', ''woce_sect''), (''STNNBR'', ''stnnbr''), (''CASTNO'', ''castno''),
      (''PARAMETERS'', ''parameters''), (''PARAM'', ''parameters''),
      (''PARAMETER'', ''parameters''), (''PARAMS'', ''parameters''),
      (''PARAMATER'', ''parameters''), (''PARAMMETER'', ''parameters''),
      (''COM'', ''comments''), (''COMM'', ''comments''), (''COMME'', ''comments''),
      (''COMMEN'', ''comments''), (''COMMUNTS'', ''comments''), (''COMMENTS'', ''comments''),
      (''COMMENT'', ''comments''), (''COMMMENTS'', ''comments''), (''MOORING'', ''comments''),
      (''C'', ''comments''), (''CO'', ''comments''), (''COMMENTS'' @ [CHR 0x09], ''comments''),
      (''PRESS'', ''max_pressure''), (''PRESSURE'', ''max_pressure''), (''WIRE'', ''wire''),
      (''OUT'', ''wire''), (''WHEEL'', ''wire''), (''BOTTLES'', ''bottles''),
      (''BOTTLE'', ''bottles''), (''BOTTOM'', ''height''), (''ALT'', ''height''),
      (''LATITUDE'', ''lat''), (''LONGITUDE'', ''lon''), (''TYPE'', ''type''),
      (''DATE'', ''date''), (''TIME'', ''time''), (''CODE'', ''event''), (''NAV'', ''nav''),
      (''DEPTH'', ''depth''), (''CDEPTH'', ''corrected_depth'')]"
  by code_simp

lemmas str_defs = replicate_dashes decode_ascii_def is_ascii_def splitlines_def is_linebreak_def
  is_space_def strip_def startswith_def is_separator_def py_index_def slice_def is_blank_def
  upper_def to_upper_def

lemmas lay_defs = resolve_layout_def read_sum_def header_labels_def calculate_slices_def
  uncorrected_marker_def corrected_marker_def inverted_def INVERTED_POSSIBILITIES_eq
  resolve_duplicates_def counter_def py_gt_def space_columns_of_def tokenize_def
  GETTERS_def simple_get_def params_get_def comments_get_def allowed_def

lemma floor_rat_numeral_div: "\<lfloor>numeral a / numeral b :: rat\<rfloor> = numeral a div numeral b"
  using floor_divide_of_int_eq [of "numeral a" "numeral b", where ?'a = rat] by simp

lemma floor_rat_one_div: "\<lfloor>1 / numeral b :: rat\<rfloor> = 1 div numeral b"
  using floor_divide_of_int_eq [of 1 "numeral b", where ?'a = rat] by simp

lemma ceiling_rat_numeral_div: "\<lceil>numeral a / numeral b :: rat\<rceil> = - (- numeral a div numeral b)"
  using ceiling_divide_eq_div [of "numeral a" "numeral b", where ?'a = rat] by simp

lemma binary_exponent_vals:
  "binary_exponent 1 = 0" "binary_exponent 12 = 3" "binary_exponent 30 = 4"
  "binary_exponent (1 / 2) = - 1" "binary_exponent (25 / 2) = 3"
  by (simp_all add: binary_exponent_def floor_rat_numeral_div floor_rat_one_div
        ceiling_rat_numeral_div compute_bitlen)

lemma round_double_vals:
  "round_double 0 = Finite 0" "round_double 1 = Finite 1" "round_double (- 1) = Finite (- 1)"
  "round_double 12 = Finite 12" "round_double 30 = Finite 30"
  "round_double (1 / 2) = Finite (1 / 2)" "round_double (25 / 2) = Finite (25 / 2)"
  "round_double (- (25 / 2)) = Finite (- (25 / 2))"
  by (simp_all add: round_double_def binary_exponent_vals pow2_def round_half_even_def
        floor_rat_numeral_div Let_def)

lemmas parse_defs = py_float_def split_sign_def parse_decimal_def parse_exponent_def is_digit_def
  digit_value_def digits_value_def pow10_def to_lower_def

lemma py_float_vals:
  "py_float ''12'' = Some (Finite 12)" "py_float ''30.0'' = Some (Finite 30)"
  "py_float ''0'' = Some (Finite 0)" "py_float ''3x.0'' = None" "py_float '''' = None"
  by (simp_all add: parse_defs str_defs round_double_vals)

lemma latlon_get_vals:
  "latlon_get [''12'', ''30.0'', ''S''] = Inr (PyFloat (Finite (- (25 / 2))), [])"
  "latlon_get [''12'', ''0'', ''n''] = Inr (PyFloat (Finite 12), [])"
  "latlon_get [''12'', ''30.0'', ''N''] = Inr (PyFloat (Finite (25 / 2)), [])"
  "latlon_get [''12'', ''30.0'', ''X''] = Inl KeyError"
  "latlon_get [''12'', ''3x.0'', ''X''] = Inr (PyNone, [])"
  by (simp_all add: latlon_get_def hem_def str_defs py_float_vals float_of_int_def
        round_double_vals)


section \<open>The parameters decoder\<close>

lemma allowed_char:
  "c \<in> allowed \<longleftrightarrow> is_digit c \<or> c = CHR '','' \<or> c = CHR ''-'' \<or> c = CHR '' ''"
  by (simp add: allowed_def is_digit_def disj_ac)

lemma allowed_iff:
  "set t \<subseteq> allowed \<longleftrightarrow>
     list_all (\<lambda>c. is_digit c \<or> c = CHR '','' \<or> c = CHR ''-'' \<or> c = CHR '' '') t"
  by (simp add: list_all_iff subset_iff allowed_char Ball_def)

text \<open>
  Claim C8. \<open>params_get\<close> looks at the token at the head of the queue without removing
  it. If every character of the token is a digit, a comma, a hyphen or a space, the
  token is popped and returned; otherwise the result is \<open>None\<close> and the queue is left
  as it was, so the next decoder still finds the token. \<open>"12,-3"\<close> is accepted;
  \<open>"A1"\<close> is rejected without being consumed, and a comments decoder that follows
  includes it.
\<close>

theorem params_get_peeks:
  "params_get [] = Inr (PyNone, []) \<and>
   params_get (t # ts) =
     (if list_all (\<lambda>c. is_digit c \<or> c = CHR '','' \<or> c = CHR ''-'' \<or> c = CHR '' '') t
      then Inr (PyStr t, ts) else Inr (PyNone, t # ts)) \<and>
   params_get [''12,-3'', ''x''] = Inr (PyStr ''12,-3'', [''x'']) \<and>
   params_get [''A1'', ''x''] = Inr (PyNone, [''A1'', ''x'']) \<and>
   decode_fields [] [''parameters'', ''comments''] [] [''A1'', ''x''] =
     Inr ([(''parameters'', PyNone), (''comments'', PyStr ''A1 x'')], [''A1'', ''x''])"
proof -
  have 1: "params_get [] = Inr (PyNone, [])"
    by (simp add: params_get_def)
  have 2: "params_get (t # ts) =
     (if list_all (\<lambda>c. is_digit c \<or> c = CHR '','' \<or> c = CHR ''-'' \<or> c = CHR '' '') t
      then Inr (PyStr t, ts) else Inr (PyNone, t # ts))"
    by (simp add: params_get_def allowed_iff)
  have 3: "params_get [''12,-3'', ''x''] = Inr (PyStr ''12,-3'', [''x''])"
    by (simp add: params_get_def allowed_def)
  have 4: "params_get [''A1'', ''x''] = Inr (PyNone, [''A1'', ''x''])"
    by (simp add: params_get_def allowed_def)
  have 5: "decode_fields [] [''parameters'', ''comments''] [] [''A1'', ''x''] =
     Inr ([(''parameters'', PyNone), (''comments'', PyStr ''A1 x'')], [''A1'', ''x''])"
    by (simp add: GETTERS_def 4 comments_get_def)
  from 1 2 3 4 5 show ?thesis by blast
qed

theorem params_get_peeks_witness:
  "params_get [''7,8'', ''y''] = Inr (PyStr ''7,8'', [''y''])"
  using params_get_peeks [of "''7,8''" "[''y'']"] by (simp add: is_digit_def)

section \<open>An empty body\<close>

text \<open>
  Claim C3. The claim asks that a file with a header, a separator and no line after
  the separator yield an empty sequence of rows. On such a file line 280 reads
  \<open>body[0]\<close> of an empty list: the generator raises IndexError and yields nothing.
\<close>

theorem empty_body_raises:
  "read_sum ''pre\<newline>STNNBR\<newline>----------\<newline>'' [] = ([], Some IndexError)"
  by (simp add: str_defs lay_defs)


section \<open>The lat/lon decoder\<close>

lemma dropWhile_rev_dropWhile:
  "dropWhile P (rev (dropWhile P (rev (dropWhile P s)))) = rev (dropWhile P (rev (dropWhile P s)))"
proof -
  define t where "t = dropWhile P s"
  define u where "u = rev (dropWhile P (rev t))"
  have t: "t = u @ rev (takeWhile P (rev t))"
  proof -
    have "rev (takeWhile P (rev t) @ dropWhile P (rev t)) = t"
      unfolding takeWhile_dropWhile_id by simp
    then show ?thesis unfolding u_def rev_append by simp
  qed
  have "dropWhile P u = u"
  proof (cases u)
    case Nil
    then show ?thesis by simp
  next
    case (Cons x xs)
    with t have "hd t = x" "t \<noteq> []" by (metis append_Cons list.sel(1), auto)
    then have "\<not> P x" unfolding t_def using hd_dropWhile by metis
    with Cons show ?thesis by simp
  qed
  then show ?thesis by (simp add: u_def t_def)
qed

lemma strip_idem: "strip (strip s) = strip s"
  by (simp add: strip_def dropWhile_rev_dropWhile)

lemma py_float_strip: "py_float (strip s) = py_float s"
  by (simp add: py_float_def strip_idem)

lemma to_upper_space: "is_space c \<Longrightarrow> to_upper c = c"
  unfolding is_space_def set_simps insert_iff empty_iff
  by (elim disjE) (simp_all add: to_upper_def)

lemma upper_strip_single:
  assumes "upper t = [c]" "\<not> is_space c"
  shows "upper (strip t) = [c]"
proof -
  from assms(1) obtain c0 where t: "t = [c0]" and c: "to_upper c0 = c"
    by (auto simp: upper_def)
  with assms(2) have "\<not> is_space c0" using to_upper_space by metis
  with t assms(1) show ?thesis by (simp add: strip_def)
qed

lemma not_space_hem: "\<not> is_space CHR ''N''" "\<not> is_space CHR ''E''" "\<not> is_space CHR ''S''" "\<not> is_space CHR ''W''"
  by (simp_all add: is_space_def)

lemma upper_strip_hem:
  "upper t = ''N'' \<or> upper t = ''E'' \<or> upper t = ''S'' \<or> upper t = ''W'' \<Longrightarrow>
   upper (strip t) = upper t"
  using upper_strip_single [of t] not_space_hem by metis

lemma latlon_get_cases:
  "latlon_get (t1 # t2 # t3 # rest) =
     (case py_float t1 of
        None \<Rightarrow> Inr (PyNone, rest)
      | Some d \<Rightarrow>
          (case py_float t2 of
             None \<Rightarrow> Inr (PyNone, rest)
           | Some m \<Rightarrow>
               (case hem (upper (strip t3)) of
                  None \<Rightarrow> Inl KeyError
                | Some sign \<Rightarrow>
                    Inr (PyFloat (float_mul (float_add d (float_div_int m 60))
                                    (float_of_int sign)), rest))))"
  by (simp add: latlon_get_def py_float_strip Let_def split: option.split)

lemma float_of_int_sign: "float_of_int 1 = Finite 1" "float_of_int (- 1) = Finite (- 1)"
  by (simp_all add: float_of_int_def round_double_vals)

text \<open>
  Claim C7, as amended. From a queue that holds at least three tokens \<open>latlon_get\<close>
  pops exactly three. When the first two parse as floats \<open>d\<close> and \<open>m\<close> and the third,
  uppercased, is \<open>N\<close> or \<open>E\<close> (sign \<open>+1\<close>), or \<open>S\<close> or \<open>W\<close> (sign \<open>-1\<close>), the result
  is \<open>(d + m / 60) * sign\<close> in float arithmetic; when the degree or the minute does not
  parse, the result is \<open>None\<close>. Degree \<open>"12"\<close>, minute \<open>"30.0"\<close>, hemisphere \<open>"S"\<close> give
  \<open>-12.5\<close>; degree \<open>"12"\<close>, minute \<open>"0"\<close>, hemisphere \<open>"n"\<close> give \<open>12.0\<close>.
\<close>

theorem latlon_get_three_tokens:
  "(py_float t1 = Some d \<and> py_float t2 = Some m \<and> (upper t3 = ''N'' \<or> upper t3 = ''E'') \<longrightarrow>
      latlon_get (t1 # t2 # t3 # rest) =
        Inr (PyFloat (float_mul (float_add d (float_div_int m 60)) (Finite 1)), rest)) \<and>
   (py_float t1 = Some d \<and> py_float t2 = Some m \<and> (upper t3 = ''S'' \<or> upper t3 = ''W'') \<longrightarrow>
      latlon_get (t1 # t2 # t3 # rest) =
        Inr (PyFloat (float_mul (float_add d (float_div_int m 60)) (Finite (- 1))), rest)) \<and>
   (py_float t1 = None \<or> py_float t2 = None \<longrightarrow>
      latlon_get (t1 # t2 # t3 # rest) = Inr (PyNone, rest)) \<and>
   latlon_get [''12'', ''30.0'', ''S''] = Inr (PyFloat (Finite (- (25 / 2))), []) \<and>
   latlon_get [''12'', ''0'', ''n''] = Inr (PyFloat (Finite 12), [])"
proof (intro conjI impI)
  assume a: "py_float t1 = Some d \<and> py_float t2 = Some m \<and> (upper t3 = ''N'' \<or> upper t3 = ''E'')"
  then have "upper (strip t3) = upper t3" by (intro upper_strip_hem) blast
  with a show "latlon_get (t1 # t2 # t3 # rest) =
        Inr (PyFloat (float_mul (float_add d (float_div_int m 60)) (Finite 1)), rest)"
    by (auto simp: latlon_get_cases hem_def float_of_int_sign)
next
  assume a: "py_float t1 = Some d \<and> py_float t2 = Some m \<and> (upper t3 = ''S'' \<or> upper t3 = ''W'')"
  then have "upper (strip t3) = upper t3" by (intro upper_strip_hem) blast
  with a show "latlon_get (t1 # t2 # t3 # rest) =
        Inr (PyFloat (float_mul (float_add d (float_div_int m 60)) (Finite (- 1))), rest)"
    by (auto simp: latlon_get_cases hem_def float_of_int_sign)
next
  assume "py_float t1 = None \<or> py_float t2 = None"
  then show "latlon_get (t1 # t2 # t3 # rest) = Inr (PyNone, rest)"
    by (auto simp: latlon_get_cases split: option.splits)
next
  show "latlon_get [''12'', ''30.0'', ''S''] = Inr (PyFloat (Finite (- (25 / 2))), [])"
    by (simp add: latlon_get_vals)
next
  show "latlon_get [''12'', ''0'', ''n''] = Inr (PyFloat (Finite 12), [])"
    by (simp add: latlon_get_vals)
qed

theorem latlon_get_three_tokens_witness:
  "py_float ''12'' = Some (Finite 12) \<and> py_float ''30.0'' = Some (Finite 30) \<and>
   upper ''w'' = ''W'' \<and>
   latlon_get [''12'', ''30.0'', ''w'', ''x''] = Inr (PyFloat (Finite (- (25 / 2))), [''x''])"
  using latlon_get_three_tokens [of "''12''" "Finite 12" "''30.0''" "Finite 30" "''w''" "[''x'']"]
  by (simp add: py_float_vals upper_def to_upper_def round_double_vals)

text \<open>
  Claim C7 as stated puts no condition on the queue. On the queue \<open>x\<close>, \<open>y\<close> the third
  \<open>popleft\<close> (line 160) raises IndexError, which the handler for ValueError does not
  catch: two tokens are popped, not three, and the degree \<open>x\<close>, which does not parse,
  does not become \<open>None\<close>. A body line with two tokens under a \<open>LATITUDE\<close> header
  reaches this through \<open>read_sum\<close>.
\<close>

theorem latlon_get_short_queue:
  "py_float ''x'' = None \<and>
   latlon_get [''x'', ''y''] = Inl IndexError \<and>
   read_sum ''pre\<newline>LATITUDE\<newline>----------\<newline>x y\<newline>'' [] = ([], Some IndexError)"
proof -
  have 1: "py_float ''x'' = None"
    by (simp add: parse_defs str_defs)
  have 2: "latlon_get [''x'', ''y''] = Inl IndexError"
    by (simp add: latlon_get_def)
  have 3: "read_sum ''pre\<newline>LATITUDE\<newline>----------\<newline>x y\<newline>'' [] = ([], Some IndexError)"
    by (simp add: str_defs lay_defs 2)
  from 1 2 3 show ?thesis by blast
qed



section \<open>Decoding a row\<close>

lemma map_of_GETTERS:
  "map_of GETTERS h = Some g \<Longrightarrow> g = simple_get \<or> g = latlon_get \<or> g = params_get \<or> g = comments_get"
proof -
  assume "map_of GETTERS h = Some g"
  then have "(h, g) \<in> set GETTERS" by (rule map_of_SomeD)
  then show ?thesis unfolding GETTERS_def by auto
qed

lemma simple_get_drop: "simple_get d = Inr (v, d') \<Longrightarrow> \<exists>k. d' = drop k d"
  by (cases d) (auto simp: simple_get_def intro: exI [of _ 0] exI [of _ 1])

lemma params_get_drop: "params_get d = Inr (v, d') \<Longrightarrow> \<exists>k. d' = drop k d"
  by (cases d) (auto simp: params_get_def intro: exI [of _ 0] exI [of _ 1] split: if_splits)

lemma comments_get_drop: "comments_get d = Inr (v, d') \<Longrightarrow> \<exists>k. d' = drop k d"
  by (auto simp: comments_get_def intro: exI [of _ 0])

lemma latlon_get_drop: "latlon_get d = Inr (v, d') \<Longrightarrow> \<exists>k. d' = drop k d"
proof -
  assume a: "latlon_get d = Inr (v, d')"
  then obtain t1 t2 t3 rest where d: "d = t1 # t2 # t3 # rest"
    by (auto simp: latlon_get_def split: list.splits)
  with a have "d' = rest"
    by (auto simp: latlon_get_cases split: option.splits)
  with d have "d' = drop 3 d" by simp
  then show ?thesis ..
qed

lemma getter_drop:
  "map_of GETTERS h = Some g \<Longrightarrow> g d = Inr (v, d') \<Longrightarrow> \<exists>k. d' = drop k d"
  using map_of_GETTERS [of h g] simple_get_drop latlon_get_drop params_get_drop comments_get_drop
  by metis

lemma decode_fields_drop:
  "decode_fields ne hs row_data d = Inr (r, d') \<Longrightarrow> \<exists>k. d' = drop k d"
proof (induction hs arbitrary: row_data d)
  case Nil
  then show ?case by (auto intro: exI [of _ 0])
next
  case (Cons h hs)
  show ?case
  proof (cases "h \<in> set ne")
    case True
    with Cons show ?thesis by simp
  next
    case False
    with Cons.prems obtain g v d1 where g: "map_of GETTERS h = Some g" "g d = Inr (v, d1)"
      and rec: "decode_fields ne hs (AList.update h v row_data) d1 = Inr (r, d')"
      by (auto split: option.splits sum.splits)
    from getter_drop [OF g] obtain k1 where "d1 = drop k1 d" ..
    moreover from Cons.IH [OF rec] obtain k2 where "d' = drop k2 d1" ..
    ultimately have "d' = drop (k1 + k2) d" by (simp add: add.commute)
    then show ?thesis ..
  qed
qed






section \<open>The comments decoder\<close>

text \<open>
  Claim C10, as amended. \<open>comments_get\<close> returns the single-space join of all tokens
  left in the queue and removes none of them. When \<open>comments\<close> is not the last field,
  the decoders of the fields that follow it start from the same queue: what they
  consume is a prefix of the tokens that the comments string already holds, and a
  token they do not consume is in the comments string only.
\<close>

theorem comments_get_keeps_queue:
  "comments_get d = Inr (PyStr (join_space d), d) \<and>
   (''comments'' \<notin> set normalized_empty \<longrightarrow>
      decode_fields normalized_empty (''comments'' # rest) row_data d =
      decode_fields normalized_empty rest
        (AList.update ''comments'' (PyStr (join_space d)) row_data) d) \<and>
   (decode_fields normalized_empty rest row_data' d = Inr (r, d') \<longrightarrow> (\<exists>k. d' = drop k d))"
proof (intro conjI impI)
  show "comments_get d = Inr (PyStr (join_space d), d)"
    by (simp add: comments_get_def)
next
  assume "''comments'' \<notin> set normalized_empty"
  then show "decode_fields normalized_empty (''comments'' # rest) row_data d =
      decode_fields normalized_empty rest
        (AList.update ''comments'' (PyStr (join_space d)) row_data) d"
    by (simp add: GETTERS_def comments_get_def)
next
  assume "decode_fields normalized_empty rest row_data' d = Inr (r, d')"
  then show "\<exists>k. d' = drop k d" by (rule decode_fields_drop)
qed

theorem comments_get_keeps_queue_witness:
  "''comments'' \<notin> set ([] :: string list) \<and>
   decode_fields [] [''comments'', ''stnnbr'', ''castno''] [] [''a'', ''b'', ''c''] =
     Inr ([(''comments'', PyStr ''a b c''), (''stnnbr'', PyStr ''a''), (''castno'', PyStr ''b'')],
          [''c'']) \<and>
   [''c''] = drop 2 [''a'', ''b'', ''c'']"
  using comments_get_keeps_queue [of "[''a'', ''b'', ''c'']" "[]" "[''stnnbr'', ''castno'']" "[]"]
  by (simp add: GETTERS_def simple_get_def)

text \<open>
  Claim C10 as stated says that every token at or after the comments position is
  consumed again by the fields that follow. With the fields \<open>comments\<close>, \<open>stnnbr\<close> and
  the tokens \<open>a\<close>, \<open>b\<close>, the token \<open>b\<close> is in the comments string and is still in the
  queue when the row is complete.
\<close>

theorem comments_tokens_not_all_consumed:
  "decode_fields [] [''comments'', ''stnnbr''] [] [''a'', ''b''] =
     Inr ([(''comments'', PyStr ''a b''), (''stnnbr'', PyStr ''a'')], [''b''])"
  by (simp add: GETTERS_def simple_get_def comments_get_def)

section \<open>Decode anomalies\<close>

text \<open>
  Claim C2, as amended. Two anomalies of a row become \<open>None\<close> for the one field and
  raise nothing: a degree or minute that does not parse as a float, when the queue
  holds the three lat/lon tokens, and parameter text with a character that is not
  allowed. The parameters decoder never raises. After such a field the next field is
  decoded from the queue the decoder left, and a row whose fields were all decoded is
  yielded before the next line is read.
\<close>

theorem anomalies_become_absence:
  "(py_float t1 = None \<or> py_float t2 = None \<longrightarrow>
      latlon_get (t1 # t2 # t3 # rest) = Inr (PyNone, rest)) \<and>
   (\<exists>v d'. params_get d = Inr (v, d')) \<and>
   (\<not> set t \<subseteq> allowed \<longrightarrow> params_get (t # ts) = Inr (PyNone, t # ts)) \<and>
   (header \<notin> set normalized_empty \<and> map_of GETTERS header = Some getter \<and>
    getter q = Inr (PyNone, q') \<longrightarrow>
      decode_fields normalized_empty (header # hs) row_data q =
      decode_fields normalized_empty hs (AList.update header PyNone row_data) q') \<and>
   (decode_fields normalized_empty hs [] line = Inr (row, q'') \<longrightarrow>
      fst (rows_loop normalized_empty hs (line # lines)) =
      row # fst (rows_loop normalized_empty hs lines))"
proof (intro conjI impI)
  assume "py_float t1 = None \<or> py_float t2 = None"
  then show "latlon_get (t1 # t2 # t3 # rest) = Inr (PyNone, rest)"
    by (auto simp: latlon_get_cases split: option.splits)
next
  show "\<exists>v d'. params_get d = Inr (v, d')"
    by (cases d) (simp_all add: params_get_def)
next
  assume "\<not> set t \<subseteq> allowed"
  then show "params_get (t # ts) = Inr (PyNone, t # ts)"
    by (simp add: params_get_def)
next
  assume "header \<notin> set normalized_empty \<and> map_of GETTERS header = Some getter \<and>
    getter q = Inr (PyNone, q')"
  then show "decode_fields normalized_empty (header # hs) row_data q =
      decode_fields normalized_empty hs (AList.update header PyNone row_data) q'"
    by simp
next
  assume "decode_fields normalized_empty hs [] line = Inr (row, q'')"
  then show "fst (rows_loop normalized_empty hs (line # lines)) =
      row # fst (rows_loop normalized_empty hs lines)"
    by (simp split: prod.splits)
qed

theorem anomalies_become_absence_witness:
  "py_float ''3x.0'' = None \<and>
   latlon_get [''12'', ''3x.0'', ''X'', ''r''] = Inr (PyNone, [''r'']) \<and>
   \<not> set ''A1'' \<subseteq> allowed \<and>
   params_get [''A1'', ''z''] = Inr (PyNone, [''A1'', ''z'']) \<and>
   ''lat'' \<notin> set ([] :: string list) \<and> map_of GETTERS ''lat'' = Some latlon_get \<and>
   decode_fields [] [''lat'', ''stnnbr''] [] [''12'', ''3x.0'', ''X'', ''r''] =
     Inr ([(''lat'', PyNone), (''stnnbr'', PyStr ''r'')], []) \<and>
   fst (rows_loop [] [''lat'', ''stnnbr''] [[''12'', ''3x.0'', ''X'', ''r''], [''1'']]) =
     [(''lat'', PyNone), (''stnnbr'', PyStr ''r'')] # fst (rows_loop [] [''lat'', ''stnnbr''] [[''1'']])"
  using anomalies_become_absence
    [where ?t1.0 = "''12''" and ?t2.0 = "''3x.0''" and ?t3.0 = "''X''" and rest = "[''r'']"
       and t = "''A1''" and ts = "[''z'']" and header = "''lat''" and normalized_empty = "[]"
       and getter = latlon_get and q = "[''12'', ''3x.0'', ''X'', ''r'']" and q' = "[''r'']"
       and hs = "[''stnnbr'']" and row_data = "[]"]
    anomalies_become_absence
    [where normalized_empty = "[]" and hs = "[''lat'', ''stnnbr'']"
       and line = "[''12'', ''3x.0'', ''X'', ''r'']"
       and row = "[(''lat'', PyNone), (''stnnbr'', PyStr ''r'')]" and q'' = "[]"
       and lines = "[[''1'']]"]
  by (simp add: py_float_vals allowed_def GETTERS_def simple_get_def)

text \<open>
  Claim C2 as stated counts an unrecognized hemisphere letter among the anomalies that
  become \<open>None\<close>. With a degree and a minute that parse, the letter \<open>X\<close> raises
  KeyError at line 165: the first row is yielded, the second is not, and the error
  ends the sequence.
\<close>

theorem unknown_hemisphere_escapes:
  "read_sum ''pre\<newline>STNNBR LATITUDE\<newline>----------\<newline>001 12 30.0 N\<newline>002 12 30.0 X\<newline>'' [] =
     ([[(''stnnbr'', PyStr ''001''), (''lat'', PyFloat (Finite (25 / 2)))]], Some KeyError)"
  by (simp add: str_defs lay_defs latlon_get_vals)


section \<open>The number of columns\<close>




lemma inverted_all_length: "inverted_all cols = Inr keys \<Longrightarrow> length keys = length cols"
  by (induction cols arbitrary: keys) (auto split: sum.splits)










section \<open>The separator line\<close>






section \<open>A separator near the start\<close>














section \<open>Duplicate header labels\<close>




















end
